theory Spec2Isabelle
  imports Complex_Main "HOL-Library.Word"
begin

section \<open>The Chainway RFID bridge of rn_tars\<close>

text \<open>
  The development embeds three source files:
  \<^item> \<^verbatim>\<open>ChainwayRfidModule.java\<close>, the native adapter around the vendor class
    \<^verbatim>\<open>RFIDWithUHFUART\<close>;
  \<^item> \<^verbatim>\<open>MainActivity.kt\<close>, the key hook that sends the trigger events;
  \<^item> \<^verbatim>\<open>ChainwayRFID.ts\<close>, the client facade.

  The vendor SDK and the React Native runtime are not part of the repository. They are
  a parameter of the model: a record of functions over an abstract external world
  \<open>'h\<close>, each returning either a value or a thrown exception together with the new
  world. Every adapter method is a state transformer over the module's own field
  \<open>rfidReader\<close>, the external world and a trace of the effects it performed.
\<close>

subsection \<open>Java values\<close>

type_synonym jint = "32 word"

text \<open>
  What a call can throw: the vendor's \<^verbatim>\<open>ConfigurationException\<close>, any other
  \<^verbatim>\<open>java.lang.Exception\<close>, or a throwable that is no \<^verbatim>\<open>Exception\<close>, that is
  a \<^verbatim>\<open>java.lang.Error\<close> (a native library that fails to link, say). Each carries the
  result of \<^verbatim>\<open>getMessage()\<close>, which may be null.
\<close>

datatype exn =
    ConfigurationException "string option"
  | OtherException "string option"
  | JavaError "string option"

fun getMessage :: "exn \<Rightarrow> string option" where
  "getMessage (ConfigurationException m) = m"
| "getMessage (OtherException m) = m"
| "getMessage (JavaError m) = m"

text \<open>\<^verbatim>\<open>e instanceof Exception\<close>: what a clause \<^verbatim>\<open>catch (Exception e)\<close> catches.\<close>

fun isException :: "exn \<Rightarrow> bool" where
  "isException (ConfigurationException m) = True"
| "isException (OtherException m) = True"
| "isException (JavaError m) = False"

text \<open>Java string concatenation prints a null reference as \<^verbatim>\<open>null\<close>.\<close>

definition concat_msg :: "string \<Rightarrow> string option \<Rightarrow> string" where
  "concat_msg prefix m = prefix @ (case m of None \<Rightarrow> ''null'' | Some t \<Rightarrow> t)"

datatype 'a outcome = Returns 'a | Throws exn

datatype RFIDWithUHFUART = TheInstance

record UHFTAGInfo =
  getEPC :: "string option"
  getTid :: "string option"
  getUser :: "string option"
  getRssi :: "string option"
  getCount :: jint

subsection \<open>\<^verbatim>\<open>String.valueOf(int)\<close>\<close>

definition digit_char :: "nat \<Rightarrow> char" where
  "digit_char d = ''0123456789'' ! d"

fun string_of_nat :: "nat \<Rightarrow> string" where
  "string_of_nat n = (if n < 10 then [digit_char n]
     else string_of_nat (n div 10) @ [digit_char (n mod 10)])"

definition valueOf :: "jint \<Rightarrow> string" where
  "valueOf i = (if sint i < 0 then CHR ''-'' # string_of_nat (nat (- sint i))
     else string_of_nat (nat (sint i)))"

subsection \<open>Promises, events and the trace of effects\<close>

datatype jsvalue =
    JBool bool
  | JInt jint
  | JString string
  | JMap "(string \<times> string) list"

text \<open>
  \<^verbatim>\<open>promise.resolve(v)\<close> and \<^verbatim>\<open>promise.reject(code, message[, throwable])\<close>.
\<close>

datatype settlement =
    Resolved jsvalue
  | Rejected string string "exn option"

datatype hwcall =
    Call_getInstance
  | Call_init
  | Call_free
  | Call_getVersion
  | Call_setPower jint
  | Call_getPower
  | Call_setFrequencyMode jint
  | Call_getFrequencyMode
  | Call_setInventoryCallback
  | Call_startInventoryTag
  | Call_stopInventory
  | Call_inventorySingleTag
  | Call_readData string jint jint jint
  | Call_writeData string jint jint jint string
  | Call_writeDataToEpc string string
  | Call_setFilter jint jint jint string
  | Call_lockMem string string
  | Call_killTag string
  | Call_isInventorying
  | Call_setEPCMode
  | Call_setEPCAndTIDMode

text \<open>
  What an execution leaves behind, in order: a method of the vendor SDK was invoked;
  an invoked method (of the SDK or of the React emitter) threw; an event reached the
  JavaScript event emitter; a promise was settled.
\<close>

datatype effect =
    Hw hwcall
  | Threw exn
  | Emit string "(string \<times> string) list option"
  | Settle settlement

subsection \<open>The external world\<close>

record 'h env =
  sdk_getInstance :: "'h \<Rightarrow> RFIDWithUHFUART outcome \<times> 'h"
  sdk_init :: "'h \<Rightarrow> bool outcome \<times> 'h"
  sdk_free :: "'h \<Rightarrow> bool outcome \<times> 'h"
  sdk_getVersion :: "'h \<Rightarrow> string option outcome \<times> 'h"
  sdk_setPower :: "jint \<Rightarrow> 'h \<Rightarrow> bool outcome \<times> 'h"
  sdk_getPower :: "'h \<Rightarrow> jint outcome \<times> 'h"
  sdk_setFrequencyMode :: "jint \<Rightarrow> 'h \<Rightarrow> bool outcome \<times> 'h"
  sdk_getFrequencyMode :: "'h \<Rightarrow> jint outcome \<times> 'h"
  sdk_setInventoryCallback :: "'h \<Rightarrow> unit outcome \<times> 'h"
  sdk_startInventoryTag :: "'h \<Rightarrow> bool outcome \<times> 'h"
  sdk_stopInventory :: "'h \<Rightarrow> bool outcome \<times> 'h"
  sdk_inventorySingleTag :: "'h \<Rightarrow> UHFTAGInfo option outcome \<times> 'h"
  sdk_readData :: "string \<Rightarrow> jint \<Rightarrow> jint \<Rightarrow> jint \<Rightarrow> 'h \<Rightarrow> string option outcome \<times> 'h"
  sdk_writeData :: "string \<Rightarrow> jint \<Rightarrow> jint \<Rightarrow> jint \<Rightarrow> string \<Rightarrow> 'h \<Rightarrow> bool outcome \<times> 'h"
  sdk_writeDataToEpc :: "string \<Rightarrow> string \<Rightarrow> 'h \<Rightarrow> bool outcome \<times> 'h"
  sdk_setFilter :: "jint \<Rightarrow> jint \<Rightarrow> jint \<Rightarrow> string \<Rightarrow> 'h \<Rightarrow> bool outcome \<times> 'h"
  sdk_lockMem :: "string \<Rightarrow> string \<Rightarrow> 'h \<Rightarrow> bool outcome \<times> 'h"
  sdk_killTag :: "string \<Rightarrow> 'h \<Rightarrow> bool outcome \<times> 'h"
  sdk_isInventorying :: "'h \<Rightarrow> bool outcome \<times> 'h"
  sdk_setEPCMode :: "'h \<Rightarrow> bool outcome \<times> 'h"
  sdk_setEPCAndTIDMode :: "'h \<Rightarrow> bool outcome \<times> 'h"
  Bank_RESERVED :: jint
  Bank_EPC :: jint
  Bank_TID :: jint
  Bank_USER :: jint
  rn_emit :: "'h \<Rightarrow> unit outcome \<times> 'h"
  currentReactContext :: "'h \<Rightarrow> bool"

text \<open>
  The fields \<open>sdk_*\<close> are the methods of \<^verbatim>\<open>RFIDWithUHFUART\<close> and \<open>Bank_*\<close> the
  constants of \<^verbatim>\<open>IUHF\<close>. \<open>rn_emit\<close> is
  \<^verbatim>\<open>getJSModule(RCTDeviceEventEmitter.class).emit(...)\<close>, which either delivers the
  event or throws; \<open>currentReactContext\<close> tells whether
  \<^verbatim>\<open>reactInstanceManager.currentReactContext\<close> is non-null.
\<close>

subsection \<open>The module's state\<close>

record 'h state =
  rfidReader :: "RFIDWithUHFUART option"
  world :: 'h
  callbackRegistered :: bool
  trace :: "effect list"

text \<open>
  \<open>rfidReader\<close> is the field of the Java class (\<open>None\<close> is null).
  \<open>callbackRegistered\<close> records that \<^verbatim>\<open>startInventory\<close> has handed its
  \<^verbatim>\<open>IUHFInventoryCallback\<close> to the SDK.
\<close>

definition initial_state :: "'h \<Rightarrow> 'h state" where
  "initial_state h = \<lparr>rfidReader = None, world = h, callbackRegistered = False, trace = []\<rparr>"

type_synonym ('a, 'h) jm = "'h state \<Rightarrow> 'a outcome \<times> 'h state"

definition jm_bind :: "('a, 'h) jm \<Rightarrow> ('a \<Rightarrow> ('b, 'h) jm) \<Rightarrow> ('b, 'h) jm" where
  "jm_bind m f s = (case m s of
      (Returns a, s') \<Rightarrow> f a s'
    | (Throws e, s') \<Rightarrow> (Throws e, s'))"

text \<open>
  \<^verbatim>\<open>try { body } catch (Exception e) { handler }\<close>: the handler runs for an
  \<^verbatim>\<open>Exception\<close>; any other throwable leaves the method.
\<close>

definition try_catch :: "(unit, 'h) jm \<Rightarrow> (exn \<Rightarrow> (unit, 'h) jm) \<Rightarrow> (unit, 'h) jm" where
  "try_catch body handler s = (case body s of
      (Returns u, s') \<Rightarrow> (Returns u, s')
    | (Throws e, s') \<Rightarrow> (if isException e then handler e s' else (Throws e, s')))"

definition tell :: "effect \<Rightarrow> (unit, 'h) jm" where
  "tell e s = (Returns (), s\<lparr>trace := trace s @ [e]\<rparr>)"

definition sdk_call :: "hwcall \<Rightarrow> ('h \<Rightarrow> 'a outcome \<times> 'h) \<Rightarrow> ('a, 'h) jm" where
  "sdk_call c f s = (case f (world s) of
      (Returns a, h') \<Rightarrow> (Returns a, s\<lparr>world := h', trace := trace s @ [Hw c]\<rparr>)
    | (Throws e, h') \<Rightarrow> (Throws e, s\<lparr>world := h', trace := trace s @ [Hw c, Threw e]\<rparr>))"

definition promise_resolve :: "jsvalue \<Rightarrow> (unit, 'h) jm" where
  "promise_resolve v = tell (Settle (Resolved v))"

definition promise_reject :: "string \<Rightarrow> string \<Rightarrow> (unit, 'h) jm" where
  "promise_reject code message = tell (Settle (Rejected code message None))"

definition promise_reject_with :: "string \<Rightarrow> string \<Rightarrow> exn \<Rightarrow> (unit, 'h) jm" where
  "promise_reject_with code message e = tell (Settle (Rejected code message (Some e)))"

subsection \<open>The adapter: \<^verbatim>\<open>ChainwayRfidModule.java\<close>\<close>

definition EVENT_TAG_READ :: string where
  "EVENT_TAG_READ = ''onTagRead''"

definition EVENT_INVENTORY_START :: string where
  "EVENT_INVENTORY_START = ''onInventoryStart''"

definition EVENT_INVENTORY_STOP :: string where
  "EVENT_INVENTORY_STOP = ''onInventoryStop''"

definition not_initialized :: "(unit, 'h) jm" where
  "not_initialized = promise_reject ''NOT_INITIALIZED'' ''RFID reader not initialized''"

definition createTagMap :: "UHFTAGInfo option \<Rightarrow> (string \<times> string) list" where
  "createTagMap tagInfo = (case tagInfo of
      None \<Rightarrow> []
    | Some t \<Rightarrow>
        [(''epc'', case getEPC t of Some v \<Rightarrow> v | None \<Rightarrow> []),
         (''tid'', case getTid t of Some v \<Rightarrow> v | None \<Rightarrow> []),
         (''user'', case getUser t of Some v \<Rightarrow> v | None \<Rightarrow> []),
         (''rssi'', case getRssi t of Some v \<Rightarrow> v | None \<Rightarrow> []),
         (''count'', valueOf (getCount t))])"

definition sendEvent :: "'h env \<Rightarrow> string \<Rightarrow> (string \<times> string) list option \<Rightarrow> (unit, 'h) jm" where
  "sendEvent E eventName params s = (case rn_emit E (world s) of
      (Returns u, h') \<Rightarrow> (Returns (), s\<lparr>world := h', trace := trace s @ [Emit eventName params]\<rparr>)
    | (Throws e, h') \<Rightarrow> (Throws e, s\<lparr>world := h', trace := trace s @ [Threw e]\<rparr>))"

definition sendTagReadEvent :: "'h env \<Rightarrow> UHFTAGInfo option \<Rightarrow> (unit, 'h) jm" where
  "sendTagReadEvent E tagInfo = sendEvent E EVENT_TAG_READ (Some (createTagMap tagInfo))"

text \<open>The body of the anonymous \<^verbatim>\<open>IUHFInventoryCallback\<close>: no handler around it.\<close>

definition callback :: "'h env \<Rightarrow> UHFTAGInfo option \<Rightarrow> (unit, 'h) jm" where
  "callback E uhftagInfo = sendTagReadEvent E uhftagInfo"

definition init :: "'h env \<Rightarrow> (unit, 'h) jm" where
  "init E = try_catch
     (jm_bind (sdk_call Call_getInstance (sdk_getInstance E)) (\<lambda>inst.
      jm_bind (\<lambda>s. (Returns (), s\<lparr>rfidReader := Some inst\<rparr>)) (\<lambda>_.
      jm_bind (sdk_call Call_init (sdk_init E)) (\<lambda>result.
        if result then promise_resolve (JBool True)
        else promise_reject ''INIT_FAILED'' ''Failed to initialize RFID reader''))))
     (\<lambda>e. case e of
        ConfigurationException m \<Rightarrow>
          promise_reject_with ''CONFIG_ERROR'' (concat_msg ''Configuration error: '' (getMessage e)) e
      | _ \<Rightarrow>
          promise_reject_with ''INIT_ERROR'' (concat_msg ''Error initializing RFID reader: '' (getMessage e)) e)"

definition free :: "'h env \<Rightarrow> (unit, 'h) jm" where
  "free E = try_catch
     (\<lambda>s. if rfidReader s \<noteq> None
        then jm_bind (sdk_call Call_free (sdk_free E)) (\<lambda>result.
               promise_resolve (JBool result)) s
        else not_initialized s)
     (\<lambda>e. promise_reject_with ''FREE_ERROR'' (concat_msg ''Error freeing RFID reader: '' (getMessage e)) e)"

definition getVersion :: "'h env \<Rightarrow> (unit, 'h) jm" where
  "getVersion E = try_catch
     (\<lambda>s. if rfidReader s = None then not_initialized s
        else jm_bind (sdk_call Call_getVersion (sdk_getVersion E)) (\<lambda>version.
               case version of
                 Some v \<Rightarrow> promise_resolve (JString v)
               | None \<Rightarrow> promise_reject ''VERSION_ERROR'' ''Failed to get version'') s)
     (\<lambda>e. promise_reject_with ''VERSION_ERROR'' (concat_msg ''Error getting version: '' (getMessage e)) e)"

definition setPower :: "'h env \<Rightarrow> jint \<Rightarrow> (unit, 'h) jm" where
  "setPower E pwr = try_catch
     (\<lambda>s. if rfidReader s = None then not_initialized s
        else jm_bind (sdk_call (Call_setPower pwr) (sdk_setPower E pwr)) (\<lambda>result.
               promise_resolve (JBool result)) s)
     (\<lambda>e. promise_reject_with ''POWER_ERROR'' (concat_msg ''Error setting power: '' (getMessage e)) e)"

definition getPower :: "'h env \<Rightarrow> (unit, 'h) jm" where
  "getPower E = try_catch
     (\<lambda>s. if rfidReader s = None then not_initialized s
        else jm_bind (sdk_call Call_getPower (sdk_getPower E)) (\<lambda>pwr.
               promise_resolve (JInt pwr)) s)
     (\<lambda>e. promise_reject_with ''POWER_ERROR'' (concat_msg ''Error getting power: '' (getMessage e)) e)"

definition setFrequencyMode :: "'h env \<Rightarrow> jint \<Rightarrow> (unit, 'h) jm" where
  "setFrequencyMode E mode = try_catch
     (\<lambda>s. if rfidReader s = None then not_initialized s
        else jm_bind (sdk_call (Call_setFrequencyMode mode) (sdk_setFrequencyMode E mode)) (\<lambda>result.
               promise_resolve (JBool result)) s)
     (\<lambda>e. promise_reject_with ''FREQUENCY_ERROR'' (concat_msg ''Error setting frequency: '' (getMessage e)) e)"

definition getFrequencyMode :: "'h env \<Rightarrow> (unit, 'h) jm" where
  "getFrequencyMode E = try_catch
     (\<lambda>s. if rfidReader s = None then not_initialized s
        else jm_bind (sdk_call Call_getFrequencyMode (sdk_getFrequencyMode E)) (\<lambda>mode.
               promise_resolve (JInt mode)) s)
     (\<lambda>e. promise_reject_with ''FREQUENCY_ERROR'' (concat_msg ''Error getting frequency: '' (getMessage e)) e)"

definition startInventory :: "'h env \<Rightarrow> (unit, 'h) jm" where
  "startInventory E = try_catch
     (\<lambda>s. if rfidReader s = None then not_initialized s
        else jm_bind (\<lambda>s. sdk_call Call_setInventoryCallback (sdk_setInventoryCallback E)
                            (s\<lparr>callbackRegistered := True\<rparr>)) (\<lambda>_.
             jm_bind (sdk_call Call_startInventoryTag (sdk_startInventoryTag E)) (\<lambda>result.
               if result
               then jm_bind (sendEvent E EVENT_INVENTORY_START None) (\<lambda>_.
                      promise_resolve (JBool True))
               else promise_reject ''START_ERROR'' ''Failed to start inventory'')) s)
     (\<lambda>e. promise_reject_with ''START_ERROR'' (concat_msg ''Error starting inventory: '' (getMessage e)) e)"

definition stopInventory :: "'h env \<Rightarrow> (unit, 'h) jm" where
  "stopInventory E = try_catch
     (\<lambda>s. if rfidReader s = None then not_initialized s
        else jm_bind (sdk_call Call_stopInventory (sdk_stopInventory E)) (\<lambda>result.
               if result
               then jm_bind (sendEvent E EVENT_INVENTORY_STOP None) (\<lambda>_.
                      promise_resolve (JBool True))
               else promise_reject ''STOP_ERROR'' ''Failed to stop inventory'') s)
     (\<lambda>e. promise_reject_with ''STOP_ERROR'' (concat_msg ''Error stopping inventory: '' (getMessage e)) e)"

definition inventorySingleTag :: "'h env \<Rightarrow> (unit, 'h) jm" where
  "inventorySingleTag E = try_catch
     (\<lambda>s. if rfidReader s = None then not_initialized s
        else jm_bind (sdk_call Call_inventorySingleTag (sdk_inventorySingleTag E)) (\<lambda>tagInfo.
               if tagInfo \<noteq> None
               then promise_resolve (JMap (createTagMap tagInfo))
               else promise_reject ''NO_TAG'' ''No tag found'') s)
     (\<lambda>e. promise_reject_with ''READ_ERROR'' (concat_msg ''Error reading tag: '' (getMessage e)) e)"

definition readData :: "'h env \<Rightarrow> string \<Rightarrow> jint \<Rightarrow> jint \<Rightarrow> jint \<Rightarrow> (unit, 'h) jm" where
  "readData E accessPwd bank ptr cnt = try_catch
     (\<lambda>s. if rfidReader s = None then not_initialized s
        else jm_bind (sdk_call (Call_readData accessPwd bank ptr cnt)
                        (sdk_readData E accessPwd bank ptr cnt)) (\<lambda>data.
               case data of
                 Some d \<Rightarrow> promise_resolve (JString d)
               | None \<Rightarrow> promise_reject ''READ_ERROR'' ''Failed to read data from tag'') s)
     (\<lambda>e. promise_reject_with ''READ_ERROR'' (concat_msg ''Error reading data: '' (getMessage e)) e)"

definition writeData :: "'h env \<Rightarrow> string \<Rightarrow> jint \<Rightarrow> jint \<Rightarrow> jint \<Rightarrow> string \<Rightarrow> (unit, 'h) jm" where
  "writeData E accessPwd bank ptr cnt data = try_catch
     (\<lambda>s. if rfidReader s = None then not_initialized s
        else jm_bind (sdk_call (Call_writeData accessPwd bank ptr cnt data)
                        (sdk_writeData E accessPwd bank ptr cnt data)) (\<lambda>result.
               promise_resolve (JBool result)) s)
     (\<lambda>e. promise_reject_with ''WRITE_ERROR'' (concat_msg ''Error writing data: '' (getMessage e)) e)"

definition writeEPC :: "'h env \<Rightarrow> string \<Rightarrow> string \<Rightarrow> (unit, 'h) jm" where
  "writeEPC E accessPwd epcData = try_catch
     (\<lambda>s. if rfidReader s = None then not_initialized s
        else jm_bind (sdk_call (Call_writeDataToEpc accessPwd epcData)
                        (sdk_writeDataToEpc E accessPwd epcData)) (\<lambda>result.
               promise_resolve (JBool result)) s)
     (\<lambda>e. promise_reject_with ''WRITE_ERROR'' (concat_msg ''Error writing EPC: '' (getMessage e)) e)"

definition setFilter :: "'h env \<Rightarrow> jint \<Rightarrow> jint \<Rightarrow> jint \<Rightarrow> string \<Rightarrow> (unit, 'h) jm" where
  "setFilter E bank ptr cnt data = try_catch
     (\<lambda>s. if rfidReader s = None then not_initialized s
        else jm_bind (sdk_call (Call_setFilter bank ptr cnt data)
                        (sdk_setFilter E bank ptr cnt data)) (\<lambda>result.
               promise_resolve (JBool result)) s)
     (\<lambda>e. promise_reject_with ''FILTER_ERROR'' (concat_msg ''Error setting filter: '' (getMessage e)) e)"

definition lockTag :: "'h env \<Rightarrow> string \<Rightarrow> string \<Rightarrow> (unit, 'h) jm" where
  "lockTag E accessPwd lockCode = try_catch
     (\<lambda>s. if rfidReader s = None then not_initialized s
        else jm_bind (sdk_call (Call_lockMem accessPwd lockCode)
                        (sdk_lockMem E accessPwd lockCode)) (\<lambda>result.
               promise_resolve (JBool result)) s)
     (\<lambda>e. promise_reject_with ''LOCK_ERROR'' (concat_msg ''Error locking tag: '' (getMessage e)) e)"

definition killTag :: "'h env \<Rightarrow> string \<Rightarrow> (unit, 'h) jm" where
  "killTag E killPwd = try_catch
     (\<lambda>s. if rfidReader s = None then not_initialized s
        else jm_bind (sdk_call (Call_killTag killPwd) (sdk_killTag E killPwd)) (\<lambda>result.
               promise_resolve (JBool result)) s)
     (\<lambda>e. promise_reject_with ''KILL_ERROR'' (concat_msg ''Error killing tag: '' (getMessage e)) e)"

definition isInventorying :: "'h env \<Rightarrow> (unit, 'h) jm" where
  "isInventorying E = try_catch
     (\<lambda>s. if rfidReader s = None then not_initialized s
        else jm_bind (sdk_call Call_isInventorying (sdk_isInventorying E)) (\<lambda>result.
               promise_resolve (JBool result)) s)
     (\<lambda>e. promise_reject_with ''STATUS_ERROR'' (concat_msg ''Error checking inventory status: '' (getMessage e)) e)"

definition setEPCMode :: "'h env \<Rightarrow> (unit, 'h) jm" where
  "setEPCMode E = try_catch
     (\<lambda>s. if rfidReader s = None then not_initialized s
        else jm_bind (sdk_call Call_setEPCMode (sdk_setEPCMode E)) (\<lambda>result.
               promise_resolve (JBool result)) s)
     (\<lambda>e. promise_reject_with ''MODE_ERROR'' (concat_msg ''Error setting EPC mode: '' (getMessage e)) e)"

definition setEPCAndTIDMode :: "'h env \<Rightarrow> (unit, 'h) jm" where
  "setEPCAndTIDMode E = try_catch
     (\<lambda>s. if rfidReader s = None then not_initialized s
        else jm_bind (sdk_call Call_setEPCAndTIDMode (sdk_setEPCAndTIDMode E)) (\<lambda>result.
               promise_resolve (JBool result)) s)
     (\<lambda>e. promise_reject_with ''MODE_ERROR'' (concat_msg ''Error setting EPC+TID mode: '' (getMessage e)) e)"


text \<open>The methods the bridge exposes, and their dispatch.\<close>

datatype operation =
    Init
  | Free
  | GetVersion
  | SetPower jint
  | GetPower
  | SetFrequencyMode jint
  | GetFrequencyMode
  | StartInventory
  | StopInventory
  | InventorySingleTag
  | ReadData string jint jint jint
  | WriteData string jint jint jint string
  | WriteEPC string string
  | SetFilter jint jint jint string
  | LockTag string string
  | KillTag string
  | IsInventorying
  | SetEPCMode
  | SetEPCAndTIDMode

fun invoke :: "'h env \<Rightarrow> operation \<Rightarrow> (unit, 'h) jm" where
  "invoke E Init = init E"
| "invoke E Free = free E"
| "invoke E GetVersion = getVersion E"
| "invoke E (SetPower pwr) = setPower E pwr"
| "invoke E GetPower = getPower E"
| "invoke E (SetFrequencyMode mode) = setFrequencyMode E mode"
| "invoke E GetFrequencyMode = getFrequencyMode E"
| "invoke E StartInventory = startInventory E"
| "invoke E StopInventory = stopInventory E"
| "invoke E InventorySingleTag = inventorySingleTag E"
| "invoke E (ReadData accessPwd bank ptr cnt) = readData E accessPwd bank ptr cnt"
| "invoke E (WriteData accessPwd bank ptr cnt d) = writeData E accessPwd bank ptr cnt d"
| "invoke E (WriteEPC accessPwd epcData) = writeEPC E accessPwd epcData"
| "invoke E (SetFilter bank ptr cnt d) = setFilter E bank ptr cnt d"
| "invoke E (LockTag accessPwd lockCode) = lockTag E accessPwd lockCode"
| "invoke E (KillTag killPwd) = killTag E killPwd"
| "invoke E IsInventorying = isInventorying E"
| "invoke E SetEPCMode = setEPCMode E"
| "invoke E SetEPCAndTIDMode = setEPCAndTIDMode E"

subsection \<open>The key hook: \<^verbatim>\<open>MainActivity.kt\<close>\<close>

text \<open>
  \<^verbatim>\<open>currentReactContext?.getJSModule(...)?.emit(eventName, null)\<close>: nothing happens
  when the context is absent; no check of the reader is made.
\<close>

definition sendTriggerEvent :: "'h env \<Rightarrow> string \<Rightarrow> (unit, 'h) jm" where
  "sendTriggerEvent E eventName s =
     (if currentReactContext E (world s) then sendEvent E eventName None s
      else (Returns (), s))"

datatype key_result = Handled | PassedToSuper

definition onKeyDown :: "'h env \<Rightarrow> jint \<Rightarrow> (key_result, 'h) jm" where
  "onKeyDown E keyCode =
     (if keyCode = 280 \<or> keyCode = 293 \<or> keyCode = 294
      then jm_bind (sendTriggerEvent E ''onTriggerPress'') (\<lambda>_ s. (Returns Handled, s))
      else (\<lambda>s. (Returns PassedToSuper, s)))"

definition onKeyUp :: "'h env \<Rightarrow> jint \<Rightarrow> (key_result, 'h) jm" where
  "onKeyUp E keyCode =
     (if keyCode = 280 \<or> keyCode = 293 \<or> keyCode = 294
      then jm_bind (sendTriggerEvent E ''onTriggerRelease'') (\<lambda>_ s. (Returns Handled, s))
      else (\<lambda>s. (Returns PassedToSuper, s)))"

subsection \<open>Executions\<close>

text \<open>
  What can happen to the running application: JavaScript invokes a method of the
  adapter, a key goes down or up, or the SDK calls the inventory callback it was given
  (it has none to call before \<^verbatim>\<open>startInventory\<close> registered one).
\<close>

datatype action =
    Invoke operation
  | KeyDown jint
  | KeyUp jint
  | InventoryCallback "UHFTAGInfo option"

fun step :: "'h env \<Rightarrow> action \<Rightarrow> 'h state \<Rightarrow> 'h state" where
  "step E (Invoke op) s = snd (invoke E op s)"
| "step E (KeyDown keyCode) s = snd (onKeyDown E keyCode s)"
| "step E (KeyUp keyCode) s = snd (onKeyUp E keyCode s)"
| "step E (InventoryCallback t) s =
     (if callbackRegistered s then snd (callback E t s) else s)"

fun run :: "'h env \<Rightarrow> action list \<Rightarrow> 'h state \<Rightarrow> 'h state" where
  "run E [] s = s"
| "run E (a # as) s = run E as (step E a s)"

subsection \<open>The client facade: \<^verbatim>\<open>ChainwayRFID.ts\<close>\<close>

text \<open>
  A JavaScript number is an IEEE double: a finite value, an infinity or NaN. The
  facade only compares its argument with the literals 0 and 30, so the finite values
  are modelled by the reals they denote. Every comparison with NaN is false.
\<close>

datatype jsnum = Finite real | PosInfinity | NegInfinity | NaN

fun js_less :: "jsnum \<Rightarrow> jsnum \<Rightarrow> bool" where
  "js_less NaN _ = False"
| "js_less _ NaN = False"
| "js_less (Finite a) (Finite b) = (a < b)"
| "js_less (Finite a) PosInfinity = True"
| "js_less (Finite a) NegInfinity = False"
| "js_less PosInfinity _ = False"
| "js_less NegInfinity NegInfinity = False"
| "js_less NegInfinity _ = True"

text \<open>The methods of \<^verbatim>\<open>ChainwayRfidInterface\<close>, with their arguments.\<close>

datatype native_call =
    N_init
  | N_free
  | N_getVersion
  | N_setPower jsnum
  | N_getPower
  | N_setFrequencyMode jsnum
  | N_getFrequencyMode
  | N_startInventory
  | N_stopInventory
  | N_inventorySingleTag
  | N_readData string jsnum jsnum jsnum
  | N_writeData string jsnum jsnum jsnum string
  | N_writeEPC string string
  | N_setFilter jsnum jsnum jsnum string
  | N_lockTag string string
  | N_killTag string
  | N_isInventorying
  | N_setEPCMode
  | N_setEPCAndTIDMode

text \<open>
  The native module as JavaScript sees it: its constants, and its methods, each
  returning a promise of the abstract type \<open>'p\<close>.
\<close>

record 'p ChainwayRfidInterface =
  native_BANK_RESERVED :: jsnum
  native_BANK_EPC :: jsnum
  native_BANK_TID :: jsnum
  native_BANK_USER :: jsnum
  native_FREQ_CHINA_840 :: jsnum
  native_FREQ_CHINA_920 :: jsnum
  native_FREQ_EUROPE :: jsnum
  native_FREQ_USA :: jsnum
  native_FREQ_KOREA :: jsnum
  native_FREQ_JAPAN :: jsnum
  native_EVENT_TAG_READ :: string
  native_EVENT_INVENTORY_START :: string
  native_EVENT_INVENTORY_STOP :: string
  native_method :: "native_call \<Rightarrow> 'p"

text \<open>The class \<^verbatim>\<open>ChainwayRFID\<close>: its static fields, and the module it delegates to.\<close>

record 'p ChainwayRFID =
  RfidModule :: "'p ChainwayRfidInterface"
  BANK_RESERVED :: jsnum
  BANK_EPC :: jsnum
  BANK_TID :: jsnum
  BANK_USER :: jsnum
  FREQ_CHINA_840 :: jsnum
  FREQ_CHINA_920 :: jsnum
  FREQ_EUROPE :: jsnum
  FREQ_USA :: jsnum
  FREQ_KOREA :: jsnum
  FREQ_JAPAN :: jsnum
  static_EVENT_TAG_READ :: string
  static_EVENT_INVENTORY_START :: string
  static_EVENT_INVENTORY_STOP :: string

text \<open>
  Evaluating the module: \<^verbatim>\<open>NativeModules.ChainwayRfid\<close> is either absent
  (\<open>None\<close>) or the native module; the module body throws an \<^verbatim>\<open>Error\<close> with a
  message or completes with the class.
\<close>

datatype 'a completion = JsThrow string | JsNormal 'a

definition module_load :: "'p ChainwayRfidInterface option \<Rightarrow> 'p ChainwayRFID completion" where
  "module_load nativeModule = (case nativeModule of
      None \<Rightarrow> JsThrow ''ChainwayRfid native module is not available''
    | Some m \<Rightarrow> JsNormal
        \<lparr>RfidModule = m,
         BANK_RESERVED = native_BANK_RESERVED m,
         BANK_EPC = native_BANK_EPC m,
         BANK_TID = native_BANK_TID m,
         BANK_USER = native_BANK_USER m,
         FREQ_CHINA_840 = native_FREQ_CHINA_840 m,
         FREQ_CHINA_920 = native_FREQ_CHINA_920 m,
         FREQ_EUROPE = native_FREQ_EUROPE m,
         FREQ_USA = native_FREQ_USA m,
         FREQ_KOREA = native_FREQ_KOREA m,
         FREQ_JAPAN = native_FREQ_JAPAN m,
         static_EVENT_TAG_READ = native_EVENT_TAG_READ m,
         static_EVENT_INVENTORY_START = native_EVENT_INVENTORY_START m,
         static_EVENT_INVENTORY_STOP = native_EVENT_INVENTORY_STOP m\<rparr>)"

text \<open>
  A static method of the facade returns either a promise it rejected itself, with the
  message of the \<^verbatim>\<open>Error\<close>, or the promise the native method returned.
\<close>

datatype 'p facade_promise = PromiseReject string | FromNative 'p

definition facade_setPower :: "'p ChainwayRFID \<Rightarrow> jsnum \<Rightarrow> 'p facade_promise" where
  "facade_setPower C pwr =
     (if js_less pwr (Finite 0) \<or> js_less (Finite 30) pwr
      then PromiseReject ''Power must be between 0 and 30''
      else FromNative (native_method (RfidModule C) (N_setPower pwr)))"

fun facade_method :: "'p ChainwayRFID \<Rightarrow> native_call \<Rightarrow> 'p facade_promise" where
  "facade_method C (N_setPower pwr) = facade_setPower C pwr"
| "facade_method C c = FromNative (native_method (RfidModule C) c)"

subsection \<open>A simulated reader\<close>

text \<open>
  A concrete external world on which the definitions can be run: a reader that stores
  its power, its frequency mode and whether it is inventorying, and an emitter that
  always delivers.
\<close>

record sim =
  sim_power :: jint
  sim_frequency :: jint
  sim_inventorying :: bool

definition sim0 :: sim where
  "sim0 = \<lparr>sim_power = 0, sim_frequency = 0, sim_inventorying = False\<rparr>"

definition sim_tag :: UHFTAGInfo where
  "sim_tag = \<lparr>getEPC = Some ''E2001234'', getTid = None, getUser = None,
     getRssi = Some ''-51.20'', getCount = 1\<rparr>"

definition sim_env :: "sim env" where
  "sim_env =
    \<lparr>sdk_getInstance = (\<lambda>h. (Returns TheInstance, h)),
     sdk_init = (\<lambda>h. (Returns True, h)),
     sdk_free = (\<lambda>h. (Returns True, h)),
     sdk_getVersion = (\<lambda>h. (Returns (Some ''V1.0''), h)),
     sdk_setPower = (\<lambda>p h. (Returns True, h\<lparr>sim_power := p\<rparr>)),
     sdk_getPower = (\<lambda>h. (Returns (sim_power h), h)),
     sdk_setFrequencyMode = (\<lambda>m h. (Returns True, h\<lparr>sim_frequency := m\<rparr>)),
     sdk_getFrequencyMode = (\<lambda>h. (Returns (sim_frequency h), h)),
     sdk_setInventoryCallback = (\<lambda>h. (Returns (), h)),
     sdk_startInventoryTag = (\<lambda>h. (Returns True, h\<lparr>sim_inventorying := True\<rparr>)),
     sdk_stopInventory = (\<lambda>h. (Returns True, h\<lparr>sim_inventorying := False\<rparr>)),
     sdk_inventorySingleTag = (\<lambda>h. (Returns (Some sim_tag), h)),
     sdk_readData = (\<lambda>accessPwd bank ptr cnt h. (Returns (Some ''0000''), h)),
     sdk_writeData = (\<lambda>accessPwd bank ptr cnt d h. (Returns True, h)),
     sdk_writeDataToEpc = (\<lambda>accessPwd epcData h. (Returns True, h)),
     sdk_setFilter = (\<lambda>bank ptr cnt d h. (Returns True, h)),
     sdk_lockMem = (\<lambda>accessPwd lockCode h. (Returns True, h)),
     sdk_killTag = (\<lambda>killPwd h. (Returns True, h)),
     sdk_isInventorying = (\<lambda>h. (Returns (sim_inventorying h), h)),
     sdk_setEPCMode = (\<lambda>h. (Returns True, h)),
     sdk_setEPCAndTIDMode = (\<lambda>h. (Returns True, h)),
     Bank_RESERVED = 0,
     Bank_EPC = 1,
     Bank_TID = 2,
     Bank_USER = 3,
     rn_emit = (\<lambda>h. (Returns (), h)),
     currentReactContext = (\<lambda>h. True)\<rparr>"

definition sim_ready :: "sim state" where
  "sim_ready = \<lparr>rfidReader = Some TheInstance, world = sim0, callbackRegistered = False, trace = []\<rparr>"


text \<open>The same reader when every hardware call reports failure without throwing.\<close>

definition refusing_env :: "sim env" where
  "refusing_env = sim_env
    \<lparr>sdk_init := (\<lambda>h. (Returns False, h)),
     sdk_free := (\<lambda>h. (Returns False, h)),
     sdk_getVersion := (\<lambda>h. (Returns None, h)),
     sdk_setPower := (\<lambda>p h. (Returns False, h)),
     sdk_setFrequencyMode := (\<lambda>m h. (Returns False, h)),
     sdk_startInventoryTag := (\<lambda>h. (Returns False, h)),
     sdk_stopInventory := (\<lambda>h. (Returns False, h)),
     sdk_inventorySingleTag := (\<lambda>h. (Returns None, h)),
     sdk_readData := (\<lambda>accessPwd bank ptr cnt h. (Returns None, h)),
     sdk_writeData := (\<lambda>accessPwd bank ptr cnt d h. (Returns False, h)),
     sdk_writeDataToEpc := (\<lambda>accessPwd epcData h. (Returns False, h)),
     sdk_setFilter := (\<lambda>bank ptr cnt d h. (Returns False, h)),
     sdk_lockMem := (\<lambda>accessPwd lockCode h. (Returns False, h)),
     sdk_killTag := (\<lambda>killPwd h. (Returns False, h)),
     sdk_setEPCMode := (\<lambda>h. (Returns False, h)),
     sdk_setEPCAndTIDMode := (\<lambda>h. (Returns False, h))\<rparr>"

text \<open>The same reader when only its \<^verbatim>\<open>init\<close> reports failure.\<close>

definition half_open_env :: "sim env" where
  "half_open_env = sim_env\<lparr>sdk_init := (\<lambda>h. (Returns False, h))\<rparr>"

text \<open>The same reader when the serial port is busy and the React instance is gone.\<close>

definition port_busy :: exn where
  "port_busy = OtherException (Some ''port busy'')"

definition no_catalyst :: exn where
  "no_catalyst = OtherException (Some ''no active CatalystInstance'')"

definition throwing_env :: "sim env" where
  "throwing_env = sim_env
    \<lparr>sdk_setPower := (\<lambda>p h. (Throws port_busy, h)),
     rn_emit := (\<lambda>h. (Throws no_catalyst, h))\<rparr>"

text \<open>The same reader on a device whose UHF module is not configured.\<close>

definition not_configured :: exn where
  "not_configured = ConfigurationException (Some ''uhf module not configured'')"

definition unconfigured_env :: "sim env" where
  "unconfigured_env = sim_env\<lparr>sdk_getInstance := (\<lambda>h. (Throws not_configured, h))\<rparr>"

text \<open>The same reader when the native library of the SDK fails to link.\<close>

definition link_error :: exn where
  "link_error = JavaError (Some ''no implementation found'')"

definition unlinked_env :: "sim env" where
  "unlinked_env = sim_env\<lparr>sdk_getInstance := (\<lambda>h. (Throws link_error, h))\<rparr>"

text \<open>A reader that accepts a frequency mode and goes on reporting the one it had.\<close>

definition forgetful_env :: "sim env" where
  "forgetful_env = sim_env\<lparr>sdk_setFrequencyMode := (\<lambda>m h. (Returns True, h))\<rparr>"

text \<open>A native module as the facade sees it, with the constants of \<open>sim_env\<close>.\<close>

definition sim_native :: "settlement ChainwayRfidInterface" where
  "sim_native =
    \<lparr>native_BANK_RESERVED = Finite 0,
     native_BANK_EPC = Finite 1,
     native_BANK_TID = Finite 2,
     native_BANK_USER = Finite 3,
     native_FREQ_CHINA_840 = Finite 1,
     native_FREQ_CHINA_920 = Finite 2,
     native_FREQ_EUROPE = Finite 4,
     native_FREQ_USA = Finite 8,
     native_FREQ_KOREA = Finite 22,
     native_FREQ_JAPAN = Finite 50,
     native_EVENT_TAG_READ = ''onTagRead'',
     native_EVENT_INVENTORY_START = ''onInventoryStart'',
     native_EVENT_INVENTORY_STOP = ''onInventoryStop'',
     native_method = (\<lambda>c. Resolved (JBool True))\<rparr>"

subsection \<open>Vocabulary of the properties\<close>

text \<open>What a method adds to the trace when it runs from state \<open>s\<close>.\<close>

definition effects_of :: "('a, 'h) jm \<Rightarrow> 'h state \<Rightarrow> effect list" where
  "effects_of m s = drop (length (trace s)) (trace (snd (m s)))"






text \<open>
  The \<^verbatim>\<open>catch\<close> clauses of the adapter, read off the source method by method: the
  code with which the handler of a method rejects the promise, and the text its message
  starts with.
\<close>

fun handler_code :: "operation \<Rightarrow> exn \<Rightarrow> string" where
  "handler_code Init (ConfigurationException m) = ''CONFIG_ERROR''"
| "handler_code Init e = ''INIT_ERROR''"
| "handler_code Free e = ''FREE_ERROR''"
| "handler_code GetVersion e = ''VERSION_ERROR''"
| "handler_code (SetPower pwr) e = ''POWER_ERROR''"
| "handler_code GetPower e = ''POWER_ERROR''"
| "handler_code (SetFrequencyMode mode) e = ''FREQUENCY_ERROR''"
| "handler_code GetFrequencyMode e = ''FREQUENCY_ERROR''"
| "handler_code StartInventory e = ''START_ERROR''"
| "handler_code StopInventory e = ''STOP_ERROR''"
| "handler_code InventorySingleTag e = ''READ_ERROR''"
| "handler_code (ReadData accessPwd bank ptr cnt) e = ''READ_ERROR''"
| "handler_code (WriteData accessPwd bank ptr cnt d) e = ''WRITE_ERROR''"
| "handler_code (WriteEPC accessPwd epcData) e = ''WRITE_ERROR''"
| "handler_code (SetFilter bank ptr cnt d) e = ''FILTER_ERROR''"
| "handler_code (LockTag accessPwd lockCode) e = ''LOCK_ERROR''"
| "handler_code (KillTag killPwd) e = ''KILL_ERROR''"
| "handler_code IsInventorying e = ''STATUS_ERROR''"
| "handler_code SetEPCMode e = ''MODE_ERROR''"
| "handler_code SetEPCAndTIDMode e = ''MODE_ERROR''"

fun handler_prefix :: "operation \<Rightarrow> exn \<Rightarrow> string" where
  "handler_prefix Init (ConfigurationException m) = ''Configuration error: ''"
| "handler_prefix Init e = ''Error initializing RFID reader: ''"
| "handler_prefix Free e = ''Error freeing RFID reader: ''"
| "handler_prefix GetVersion e = ''Error getting version: ''"
| "handler_prefix (SetPower pwr) e = ''Error setting power: ''"
| "handler_prefix GetPower e = ''Error getting power: ''"
| "handler_prefix (SetFrequencyMode mode) e = ''Error setting frequency: ''"
| "handler_prefix GetFrequencyMode e = ''Error getting frequency: ''"
| "handler_prefix StartInventory e = ''Error starting inventory: ''"
| "handler_prefix StopInventory e = ''Error stopping inventory: ''"
| "handler_prefix InventorySingleTag e = ''Error reading tag: ''"
| "handler_prefix (ReadData accessPwd bank ptr cnt) e = ''Error reading data: ''"
| "handler_prefix (WriteData accessPwd bank ptr cnt d) e = ''Error writing data: ''"
| "handler_prefix (WriteEPC accessPwd epcData) e = ''Error writing EPC: ''"
| "handler_prefix (SetFilter bank ptr cnt d) e = ''Error setting filter: ''"
| "handler_prefix (LockTag accessPwd lockCode) e = ''Error locking tag: ''"
| "handler_prefix (KillTag killPwd) e = ''Error killing tag: ''"
| "handler_prefix IsInventorying e = ''Error checking inventory status: ''"
| "handler_prefix SetEPCMode e = ''Error setting EPC mode: ''"
| "handler_prefix SetEPCAndTIDMode e = ''Error setting EPC+TID mode: ''"

section \<open>Properties\<close>

subsection \<open>Unfolding the model\<close>

lemmas jm_defs = jm_bind_def try_catch_def tell_def sdk_call_def promise_resolve_def
  promise_reject_def promise_reject_with_def not_initialized_def sendEvent_def

lemmas op_defs = init_def free_def getVersion_def setPower_def getPower_def
  setFrequencyMode_def getFrequencyMode_def startInventory_def stopInventory_def
  inventorySingleTag_def readData_def writeData_def writeEPC_def setFilter_def
  lockTag_def killTag_def isInventorying_def setEPCMode_def setEPCAndTIDMode_def



lemmas sim_defs = sim_env_def sim_ready_def sim0_def refusing_env_def half_open_env_def
  throwing_env_def unconfigured_env_def unlinked_env_def forgetful_env_def initial_state_def

subsection \<open>What every method does to the trace and to the reader field\<close>





lemma invoke_uninitialized:
  assumes "rfidReader s = None" and "op \<noteq> Init"
  shows "invoke E op s =
    (Returns (), s\<lparr>trace := trace s @
       [Settle (Rejected ''NOT_INITIALIZED'' ''RFID reader not initialized'' None)]\<rparr>)"
  using assms by (cases op) (simp_all add: op_defs jm_defs)

text \<open>A thrown \<^verbatim>\<open>Exception\<close> ends in the handler of the method; anything else leaves it.\<close>

lemma invoke_caught:
  "Threw e \<in> set (effects_of (invoke E op) s) \<Longrightarrow> isException e \<Longrightarrow>
   fst (invoke E op s) = Returns () \<and>
   (\<exists>pre. effects_of (invoke E op) s =
        pre @ [Settle (Rejected (handler_code op e)
                 (concat_msg (handler_prefix op e) (getMessage e)) (Some e))]
      \<and> (\<forall>st. Settle st \<notin> set pre))"
  by (cases op)
    (auto simp add: op_defs jm_defs effects_of_def
      split: prod.splits outcome.splits exn.splits option.splits if_splits)

lemma invoke_escapes:
  "Threw e \<in> set (effects_of (invoke E op) s) \<Longrightarrow> \<not> isException e \<Longrightarrow>
   fst (invoke E op s) = Throws e \<and> (\<forall>st. Settle st \<notin> set (effects_of (invoke E op) s))"
  by (cases op)
    (auto simp add: op_defs jm_defs effects_of_def
      split: prod.splits outcome.splits exn.splits option.splits if_splits)

lemma invoke_unthrown:
  "\<forall>x. Threw x \<notin> set (effects_of (invoke E op) s) \<Longrightarrow>
   fst (invoke E op s) = Returns () \<and>
   (\<exists>pre st. effects_of (invoke E op) s = pre @ [Settle st] \<and> (\<forall>st'. Settle st' \<notin> set pre))"
  by (cases op)
    (auto simp add: op_defs jm_defs effects_of_def
      split: prod.splits outcome.splits exn.splits option.splits if_splits)

text \<open>The states used as examples are those a successful \<^verbatim>\<open>init\<close> leads to.\<close>

lemma sim_ready_reached:
  "run sim_env [Invoke Init] (initial_state sim0) =
     sim_ready\<lparr>trace := [Hw Call_getInstance, Hw Call_init, Settle (Resolved (JBool True))]\<rparr>"
  by (simp add: init_def jm_defs sim_defs)

subsection \<open>The null check\<close>

text \<open>
  Claim C1. Every method other than \<^verbatim>\<open>init\<close>, invoked while the reader field is
  null, rejects its promise with NOT_INITIALIZED and does nothing else: the external
  world is untouched and the trace gains the rejection only, so no hardware call is
  made.
\<close>

theorem uninitialized_operations_rejected:
  assumes "rfidReader s = None" and "op \<noteq> Init"
  shows "invoke E op s =
    (Returns (), s\<lparr>trace := trace s @
       [Settle (Rejected ''NOT_INITIALIZED'' ''RFID reader not initialized'' None)]\<rparr>)"
  using assms by (rule invoke_uninitialized)

theorem uninitialized_operations_rejected_witness:
  "rfidReader (initial_state sim0) = None \<and> SetPower 5 \<noteq> Init \<and>
   fst (invoke sim_env (SetPower 5) (initial_state sim0)) = Returns () \<and>
   world (snd (invoke sim_env (SetPower 5) (initial_state sim0))) = sim0 \<and>
   trace (snd (invoke sim_env (SetPower 5) (initial_state sim0))) =
     [Settle (Rejected ''NOT_INITIALIZED'' ''RFID reader not initialized'' None)]"
  using uninitialized_operations_rejected [of "initial_state sim0" "SetPower 5" sim_env]
  by (simp add: initial_state_def)

subsection \<open>The range check of the facade\<close>

text \<open>
  The facade rejects every real number below 0 or above 30 and both infinities, and
  hands every integer from 0 to 30 to the native method unchanged.
\<close>

lemma facade_setPower_rejects:
  "r < 0 \<or> 30 < r \<Longrightarrow>
     facade_method C (N_setPower (Finite r)) = PromiseReject ''Power must be between 0 and 30''"
  "facade_method C (N_setPower PosInfinity) = PromiseReject ''Power must be between 0 and 30''"
  "facade_method C (N_setPower NegInfinity) = PromiseReject ''Power must be between 0 and 30''"
  by (auto simp add: facade_setPower_def)

lemma facade_setPower_forwards:
  "0 \<le> k \<Longrightarrow> k \<le> (30::int) \<Longrightarrow>
     facade_method C (N_setPower (Finite (of_int k))) =
       FromNative (native_method (RfidModule C) (N_setPower (Finite (of_int k))))"
  by (auto simp add: facade_setPower_def)

text \<open>
  Claim C2. The facade's \<^verbatim>\<open>setPower\<close> is to reject every number outside [0, 30]
  without a native call. NaN is a value of the parameter's type \<^verbatim>\<open>number\<close> that
  is not within [0, 30]; both comparisons of the guard are false for it, so the facade
  passes NaN on to the native \<^verbatim>\<open>setPower\<close>.
\<close>

theorem facade_setPower_forwards_NaN:
  "facade_method C (N_setPower NaN) =
     FromNative (native_method (RfidModule C) (N_setPower NaN))"
  by (simp add: facade_setPower_def)

subsection \<open>Failure sentinels\<close>

lemma sentinel_init:
  "sdk_getInstance E (world s) = (Returns i, h1) \<Longrightarrow> fst (sdk_init E h1) = Returns False \<Longrightarrow>
   effects_of (init E) s = [Hw Call_getInstance, Hw Call_init,
      Settle (Rejected ''INIT_FAILED'' ''Failed to initialize RFID reader'' None)]"
  by (cases "sdk_init E h1") (simp add: init_def jm_defs effects_of_def)

lemma sentinel_getVersion:
  "rfidReader s \<noteq> None \<Longrightarrow> fst (sdk_getVersion E (world s)) = Returns None \<Longrightarrow>
   effects_of (getVersion E) s = [Hw Call_getVersion,
      Settle (Rejected ''VERSION_ERROR'' ''Failed to get version'' None)]"
  by (cases "sdk_getVersion E (world s)") (simp add: getVersion_def jm_defs effects_of_def)

lemma sentinel_startInventory:
  "rfidReader s \<noteq> None \<Longrightarrow> sdk_setInventoryCallback E (world s) = (Returns (), h1) \<Longrightarrow>
   fst (sdk_startInventoryTag E h1) = Returns False \<Longrightarrow>
   effects_of (startInventory E) s = [Hw Call_setInventoryCallback, Hw Call_startInventoryTag,
      Settle (Rejected ''START_ERROR'' ''Failed to start inventory'' None)]"
  by (cases "sdk_startInventoryTag E h1") (simp add: startInventory_def jm_defs effects_of_def)

lemma sentinel_stopInventory:
  "rfidReader s \<noteq> None \<Longrightarrow> fst (sdk_stopInventory E (world s)) = Returns False \<Longrightarrow>
   effects_of (stopInventory E) s = [Hw Call_stopInventory,
      Settle (Rejected ''STOP_ERROR'' ''Failed to stop inventory'' None)]"
  by (cases "sdk_stopInventory E (world s)") (simp add: stopInventory_def jm_defs effects_of_def)

lemma sentinel_inventorySingleTag:
  "rfidReader s \<noteq> None \<Longrightarrow> fst (sdk_inventorySingleTag E (world s)) = Returns None \<Longrightarrow>
   effects_of (inventorySingleTag E) s = [Hw Call_inventorySingleTag,
      Settle (Rejected ''NO_TAG'' ''No tag found'' None)]"
  by (cases "sdk_inventorySingleTag E (world s)")
    (simp add: inventorySingleTag_def jm_defs effects_of_def)

lemma sentinel_readData:
  "rfidReader s \<noteq> None \<Longrightarrow> fst (sdk_readData E a b p c (world s)) = Returns None \<Longrightarrow>
   effects_of (readData E a b p c) s = [Hw (Call_readData a b p c),
      Settle (Rejected ''READ_ERROR'' ''Failed to read data from tag'' None)]"
  by (cases "sdk_readData E a b p c (world s)") (simp add: readData_def jm_defs effects_of_def)

text \<open>The other boolean methods hand the SDK's answer to the promise as it is.\<close>

lemma pass_through:
  assumes "rfidReader s \<noteq> None" and "fst (f (world s)) = Returns b"
  shows "effects_of (try_catch
           (\<lambda>s. if rfidReader s = None then not_initialized s
              else jm_bind (sdk_call c f) (\<lambda>result. promise_resolve (JBool result)) s) handler) s
         = [Hw c, Settle (Resolved (JBool b))]"
  using assms by (cases "f (world s)") (simp add: jm_defs effects_of_def)

lemma free_passes_through:
  "rfidReader s \<noteq> None \<Longrightarrow> fst (sdk_free E (world s)) = Returns b \<Longrightarrow>
   effects_of (free E) s = [Hw Call_free, Settle (Resolved (JBool b))]"
  by (cases "sdk_free E (world s)") (simp add: free_def jm_defs effects_of_def)

text \<open>
  Claim C3. A method is to reject whenever the hardware call returns a failure sentinel.
  It does not for \<^verbatim>\<open>setPower\<close>: when the reader answers \<^verbatim>\<open>false\<close>, the promise is
  resolved, with \<^verbatim>\<open>false\<close>.
\<close>

theorem setPower_false_is_resolved:
  "invoke refusing_env (SetPower 10) sim_ready =
     (Returns (), sim_ready\<lparr>trace := [Hw (Call_setPower 10), Settle (Resolved (JBool False))]\<rparr>)"
  by (simp add: setPower_def jm_defs sim_defs)

text \<open>
  Claim C3, amended. When the hardware call returns a failure sentinel without throwing,
  \<^verbatim>\<open>init\<close> (in any state, the reader field null or not) rejects with INIT_FAILED, and,
  with the reader field set, \<^verbatim>\<open>getVersion\<close>, \<^verbatim>\<open>startInventory\<close>,
  \<^verbatim>\<open>stopInventory\<close>, \<^verbatim>\<open>inventorySingleTag\<close> and \<^verbatim>\<open>readData\<close> reject with
  VERSION_ERROR, START_ERROR, STOP_ERROR, NO_TAG and READ_ERROR; the other boolean methods
  (\<^verbatim>\<open>free\<close>, \<^verbatim>\<open>setPower\<close>, \<^verbatim>\<open>setFrequencyMode\<close>, \<^verbatim>\<open>writeData\<close>,
  \<^verbatim>\<open>writeEPC\<close>, \<^verbatim>\<open>setFilter\<close>, \<^verbatim>\<open>lockTag\<close>, \<^verbatim>\<open>killTag\<close>, \<^verbatim>\<open>setEPCMode\<close>,
  \<^verbatim>\<open>setEPCAndTIDMode\<close>) resolve with \<^verbatim>\<open>false\<close>.
\<close>

theorem failure_sentinel_outcomes:
   "(sdk_getInstance E (world s) = (Returns i, h1) \<and> fst (sdk_init E h1) = Returns False \<longrightarrow>
       effects_of (init E) s = [Hw Call_getInstance, Hw Call_init,
         Settle (Rejected ''INIT_FAILED'' ''Failed to initialize RFID reader'' None)])
  \<and> (rfidReader s \<noteq> None \<longrightarrow>
     (fst (sdk_getVersion E (world s)) = Returns None \<longrightarrow>
       effects_of (getVersion E) s = [Hw Call_getVersion,
         Settle (Rejected ''VERSION_ERROR'' ''Failed to get version'' None)])
  \<and> (sdk_setInventoryCallback E (world s) = (Returns (), h2)
       \<and> fst (sdk_startInventoryTag E h2) = Returns False \<longrightarrow>
       effects_of (startInventory E) s = [Hw Call_setInventoryCallback, Hw Call_startInventoryTag,
         Settle (Rejected ''START_ERROR'' ''Failed to start inventory'' None)])
  \<and> (fst (sdk_stopInventory E (world s)) = Returns False \<longrightarrow>
       effects_of (stopInventory E) s = [Hw Call_stopInventory,
         Settle (Rejected ''STOP_ERROR'' ''Failed to stop inventory'' None)])
  \<and> (fst (sdk_inventorySingleTag E (world s)) = Returns None \<longrightarrow>
       effects_of (inventorySingleTag E) s = [Hw Call_inventorySingleTag,
         Settle (Rejected ''NO_TAG'' ''No tag found'' None)])
  \<and> (fst (sdk_readData E accessPwd bank ptr cnt (world s)) = Returns None \<longrightarrow>
       effects_of (readData E accessPwd bank ptr cnt) s = [Hw (Call_readData accessPwd bank ptr cnt),
         Settle (Rejected ''READ_ERROR'' ''Failed to read data from tag'' None)])
  \<and> (fst (sdk_free E (world s)) = Returns False \<longrightarrow>
       effects_of (free E) s = [Hw Call_free, Settle (Resolved (JBool False))])
  \<and> (fst (sdk_setPower E pwr (world s)) = Returns False \<longrightarrow>
       effects_of (setPower E pwr) s = [Hw (Call_setPower pwr), Settle (Resolved (JBool False))])
  \<and> (fst (sdk_setFrequencyMode E mode (world s)) = Returns False \<longrightarrow>
       effects_of (setFrequencyMode E mode) s =
         [Hw (Call_setFrequencyMode mode), Settle (Resolved (JBool False))])
  \<and> (fst (sdk_writeData E accessPwd bank ptr cnt d (world s)) = Returns False \<longrightarrow>
       effects_of (writeData E accessPwd bank ptr cnt d) s =
         [Hw (Call_writeData accessPwd bank ptr cnt d), Settle (Resolved (JBool False))])
  \<and> (fst (sdk_writeDataToEpc E accessPwd epcData (world s)) = Returns False \<longrightarrow>
       effects_of (writeEPC E accessPwd epcData) s =
         [Hw (Call_writeDataToEpc accessPwd epcData), Settle (Resolved (JBool False))])
  \<and> (fst (sdk_setFilter E bank ptr cnt d (world s)) = Returns False \<longrightarrow>
       effects_of (setFilter E bank ptr cnt d) s =
         [Hw (Call_setFilter bank ptr cnt d), Settle (Resolved (JBool False))])
  \<and> (fst (sdk_lockMem E accessPwd lockCode (world s)) = Returns False \<longrightarrow>
       effects_of (lockTag E accessPwd lockCode) s =
         [Hw (Call_lockMem accessPwd lockCode), Settle (Resolved (JBool False))])
  \<and> (fst (sdk_killTag E killPwd (world s)) = Returns False \<longrightarrow>
       effects_of (killTag E killPwd) s = [Hw (Call_killTag killPwd), Settle (Resolved (JBool False))])
  \<and> (fst (sdk_setEPCMode E (world s)) = Returns False \<longrightarrow>
       effects_of (setEPCMode E) s = [Hw Call_setEPCMode, Settle (Resolved (JBool False))])
  \<and> (fst (sdk_setEPCAndTIDMode E (world s)) = Returns False \<longrightarrow>
       effects_of (setEPCAndTIDMode E) s =
         [Hw Call_setEPCAndTIDMode, Settle (Resolved (JBool False))]))"
  by (intro conjI impI)
    (simp_all add: sentinel_init sentinel_getVersion sentinel_startInventory
       sentinel_stopInventory sentinel_inventorySingleTag sentinel_readData
       free_passes_through pass_through setPower_def setFrequencyMode_def writeData_def
       writeEPC_def setFilter_def lockTag_def killTag_def setEPCMode_def setEPCAndTIDMode_def)

theorem failure_sentinel_outcomes_witness:
  "rfidReader (initial_state sim0) = None
   \<and> sdk_getInstance refusing_env (world (initial_state sim0)) = (Returns TheInstance, sim0)
   \<and> fst (sdk_init refusing_env sim0) = Returns False
   \<and> effects_of (init refusing_env) (initial_state sim0) =
       [Hw Call_getInstance, Hw Call_init,
        Settle (Rejected ''INIT_FAILED'' ''Failed to initialize RFID reader'' None)]
   \<and> rfidReader sim_ready \<noteq> None
   \<and> fst (sdk_getVersion refusing_env (world sim_ready)) = Returns None
   \<and> effects_of (getVersion refusing_env) sim_ready =
       [Hw Call_getVersion, Settle (Rejected ''VERSION_ERROR'' ''Failed to get version'' None)]
   \<and> fst (sdk_inventorySingleTag refusing_env (world sim_ready)) = Returns None
   \<and> effects_of (inventorySingleTag refusing_env) sim_ready =
       [Hw Call_inventorySingleTag, Settle (Rejected ''NO_TAG'' ''No tag found'' None)]
   \<and> fst (sdk_killTag refusing_env ''00000000'' (world sim_ready)) = Returns False
   \<and> effects_of (killTag refusing_env ''00000000'') sim_ready =
       [Hw (Call_killTag ''00000000''), Settle (Resolved (JBool False))]"
proof -
  have n: "rfidReader (initial_state sim0) = None" by (simp add: sim_defs)
  have g: "sdk_getInstance refusing_env (world (initial_state sim0)) = (Returns TheInstance, sim0)"
    by (simp add: sim_defs)
  have i: "fst (sdk_init refusing_env sim0) = Returns False" by (simp add: sim_defs)
  have r: "rfidReader sim_ready \<noteq> None" by (simp add: sim_defs)
  have v: "fst (sdk_getVersion refusing_env (world sim_ready)) = Returns None"
    by (simp add: sim_defs)
  have t: "fst (sdk_inventorySingleTag refusing_env (world sim_ready)) = Returns None"
    by (simp add: sim_defs)
  have k: "fst (sdk_killTag refusing_env ''00000000'' (world sim_ready)) = Returns False"
    by (simp add: sim_defs)
  from n g i
    failure_sentinel_outcomes [where E = refusing_env and s = "initial_state sim0"
      and i = TheInstance and ?h1.0 = sim0]
  have a: "effects_of (init refusing_env) (initial_state sim0) =
       [Hw Call_getInstance, Hw Call_init,
        Settle (Rejected ''INIT_FAILED'' ''Failed to initialize RFID reader'' None)]"
    by blast
  from r v t k
    failure_sentinel_outcomes [where E = refusing_env and s = sim_ready
      and killPwd = "''00000000''"]
  have b: "effects_of (getVersion refusing_env) sim_ready =
       [Hw Call_getVersion, Settle (Rejected ''VERSION_ERROR'' ''Failed to get version'' None)]
   \<and> effects_of (inventorySingleTag refusing_env) sim_ready =
       [Hw Call_inventorySingleTag, Settle (Rejected ''NO_TAG'' ''No tag found'' None)]
   \<and> effects_of (killTag refusing_env ''00000000'') sim_ready =
       [Hw (Call_killTag ''00000000''), Settle (Resolved (JBool False))]"
    by blast
  from n g i r v t k a b show ?thesis by blast
qed

subsection \<open>Inventory events\<close>









subsection \<open>Events and initialization\<close>










text \<open>
  The adapter tests the reader field, not whether \<^verbatim>\<open>init\<close> resolved: a rejected
  \<^verbatim>\<open>init\<close> that got as far as \<^verbatim>\<open>getInstance\<close> leaves the field set, and a
  later \<^verbatim>\<open>startInventory\<close> goes to the reader.
\<close>

lemma inventory_start_after_rejected_init:
  "trace (run half_open_env [Invoke Init, Invoke StartInventory] (initial_state sim0)) =
     [Hw Call_getInstance, Hw Call_init,
      Settle (Rejected ''INIT_FAILED'' ''Failed to initialize RFID reader'' None),
      Hw Call_setInventoryCallback, Hw Call_startInventoryTag,
      Emit EVENT_INVENTORY_START None, Settle (Resolved (JBool True))]"
  by (simp add: init_def startInventory_def jm_defs sim_defs)



subsection \<open>The payload of a tag-read event\<close>











subsection \<open>The outcomes of \<^verbatim>\<open>init\<close>\<close>

lemma init_rejections:
  "Settle (Rejected c m x) \<in> set (effects_of (init E) s) \<Longrightarrow>
   c = ''INIT_FAILED'' \<or> c = ''CONFIG_ERROR'' \<or> c = ''INIT_ERROR''"
  by (auto simp add: init_def jm_defs effects_of_def
        split: prod.splits outcome.splits exn.splits if_splits)

text \<open>
  Claim C7. \<^verbatim>\<open>init\<close> is to fail with NOT_INITIALIZED, CONFIG_ERROR or INIT_ERROR only,
  every thrown fault that is no \<^verbatim>\<open>ConfigurationException\<close> giving INIT_ERROR.
  When the SDK's \<^verbatim>\<open>init\<close> returns \<^verbatim>\<open>false\<close>, the promise is rejected with a fourth
  code, INIT_FAILED. And when the native library fails to link, the
  \<^verbatim>\<open>java.lang.Error\<close> that \<^verbatim>\<open>getInstance\<close> throws leaves \<^verbatim>\<open>init\<close>, no code
  being produced.
\<close>

theorem init_failed_is_a_fourth_outcome:
  "invoke refusing_env Init (initial_state sim0) =
     (Returns (), \<lparr>rfidReader = Some TheInstance, world = sim0, callbackRegistered = False,
        trace = [Hw Call_getInstance, Hw Call_init,
                 Settle (Rejected ''INIT_FAILED'' ''Failed to initialize RFID reader'' None)]\<rparr>)
   \<and> ''INIT_FAILED'' \<notin> {''NOT_INITIALIZED'', ''CONFIG_ERROR'', ''INIT_ERROR''}
   \<and> invoke unlinked_env Init (initial_state sim0) =
     (Throws link_error, \<lparr>rfidReader = None, world = sim0, callbackRegistered = False,
        trace = [Hw Call_getInstance, Threw link_error]\<rparr>)"
  by (simp add: init_def jm_defs sim_defs link_error_def)

text \<open>
  Claim C7, amended. What \<^verbatim>\<open>init\<close> does is decided by the two SDK calls it makes,
  \<^verbatim>\<open>getInstance\<close> and then \<^verbatim>\<open>init\<close> on the instance, which it stores in the
  reader field first. When both return and the SDK's \<^verbatim>\<open>init\<close> answers \<^verbatim>\<open>true\<close>,
  the promise is resolved with \<^verbatim>\<open>true\<close>; when it answers \<^verbatim>\<open>false\<close>, the promise is
  rejected with INIT_FAILED. When either call throws a \<^verbatim>\<open>ConfigurationException\<close>
  the promise is rejected with CONFIG_ERROR, and when either throws any other
  \<^verbatim>\<open>Exception\<close>, with INIT_ERROR. No other error code is produced; NOT_INITIALIZED
  never is. A thrown \<^verbatim>\<open>java.lang.Error\<close> is not caught: it leaves \<^verbatim>\<open>init\<close> with
  the promise unsettled.
\<close>

theorem init_outcomes:
  "(sdk_getInstance E (world s) = (Returns i, h1) \<and> sdk_init E h1 = (Returns True, h2) \<longrightarrow>
      init E s = (Returns (), s\<lparr>rfidReader := Some i, world := h2,
        trace := trace s @ [Hw Call_getInstance, Hw Call_init,
          Settle (Resolved (JBool True))]\<rparr>))
 \<and> (sdk_getInstance E (world s) = (Returns i, h1) \<and> sdk_init E h1 = (Returns False, h2) \<longrightarrow>
      init E s = (Returns (), s\<lparr>rfidReader := Some i, world := h2,
        trace := trace s @ [Hw Call_getInstance, Hw Call_init,
          Settle (Rejected ''INIT_FAILED'' ''Failed to initialize RFID reader'' None)]\<rparr>))
 \<and> (sdk_getInstance E (world s) = (Throws (ConfigurationException m), h1) \<longrightarrow>
      init E s = (Returns (), s\<lparr>world := h1,
        trace := trace s @ [Hw Call_getInstance, Threw (ConfigurationException m),
          Settle (Rejected ''CONFIG_ERROR'' (concat_msg ''Configuration error: '' m)
                    (Some (ConfigurationException m)))]\<rparr>))
 \<and> (sdk_getInstance E (world s) = (Returns i, h1)
      \<and> sdk_init E h1 = (Throws (ConfigurationException m), h2) \<longrightarrow>
      init E s = (Returns (), s\<lparr>rfidReader := Some i, world := h2,
        trace := trace s @ [Hw Call_getInstance, Hw Call_init, Threw (ConfigurationException m),
          Settle (Rejected ''CONFIG_ERROR'' (concat_msg ''Configuration error: '' m)
                    (Some (ConfigurationException m)))]\<rparr>))
 \<and> (sdk_getInstance E (world s) = (Throws (OtherException m), h1) \<longrightarrow>
      init E s = (Returns (), s\<lparr>world := h1,
        trace := trace s @ [Hw Call_getInstance, Threw (OtherException m),
          Settle (Rejected ''INIT_ERROR'' (concat_msg ''Error initializing RFID reader: '' m)
                    (Some (OtherException m)))]\<rparr>))
 \<and> (sdk_getInstance E (world s) = (Returns i, h1)
      \<and> sdk_init E h1 = (Throws (OtherException m), h2) \<longrightarrow>
      init E s = (Returns (), s\<lparr>rfidReader := Some i, world := h2,
        trace := trace s @ [Hw Call_getInstance, Hw Call_init, Threw (OtherException m),
          Settle (Rejected ''INIT_ERROR'' (concat_msg ''Error initializing RFID reader: '' m)
                    (Some (OtherException m)))]\<rparr>))
 \<and> (sdk_getInstance E (world s) = (Throws (JavaError m), h1) \<longrightarrow>
      init E s = (Throws (JavaError m), s\<lparr>world := h1,
        trace := trace s @ [Hw Call_getInstance, Threw (JavaError m)]\<rparr>))
 \<and> (sdk_getInstance E (world s) = (Returns i, h1)
      \<and> sdk_init E h1 = (Throws (JavaError m), h2) \<longrightarrow>
      init E s = (Throws (JavaError m), s\<lparr>rfidReader := Some i, world := h2,
        trace := trace s @ [Hw Call_getInstance, Hw Call_init, Threw (JavaError m)]\<rparr>))
 \<and> (Settle (Rejected c msg x) \<in> set (effects_of (init E) s) \<longrightarrow>
      c = ''INIT_FAILED'' \<or> c = ''CONFIG_ERROR'' \<or> c = ''INIT_ERROR'')"
  by (intro conjI impI) (simp_all add: init_def jm_defs init_rejections)

theorem init_outcomes_witness:
  "sdk_getInstance sim_env (world (initial_state sim0)) = (Returns TheInstance, sim0)
   \<and> sdk_init sim_env sim0 = (Returns True, sim0)
   \<and> init sim_env (initial_state sim0) =
       (Returns (), \<lparr>rfidReader = Some TheInstance, world = sim0, callbackRegistered = False,
          trace = [Hw Call_getInstance, Hw Call_init, Settle (Resolved (JBool True))]\<rparr>)
   \<and> sdk_init refusing_env sim0 = (Returns False, sim0)
   \<and> init refusing_env (initial_state sim0) =
       (Returns (), \<lparr>rfidReader = Some TheInstance, world = sim0, callbackRegistered = False,
          trace = [Hw Call_getInstance, Hw Call_init,
            Settle (Rejected ''INIT_FAILED'' ''Failed to initialize RFID reader'' None)]\<rparr>)
   \<and> sdk_getInstance unconfigured_env (world (initial_state sim0)) = (Throws not_configured, sim0)
   \<and> init unconfigured_env (initial_state sim0) =
       (Returns (), \<lparr>rfidReader = None, world = sim0, callbackRegistered = False,
          trace = [Hw Call_getInstance, Threw not_configured,
            Settle (Rejected ''CONFIG_ERROR'' ''Configuration error: uhf module not configured''
                      (Some not_configured))]\<rparr>)
   \<and> sdk_getInstance unlinked_env (world (initial_state sim0)) = (Throws link_error, sim0)
   \<and> init unlinked_env (initial_state sim0) =
       (Throws link_error, \<lparr>rfidReader = None, world = sim0, callbackRegistered = False,
          trace = [Hw Call_getInstance, Threw link_error]\<rparr>)"
  using init_outcomes [where E = sim_env and s = "initial_state sim0" and i = TheInstance
      and ?h1.0 = sim0 and ?h2.0 = sim0]
    init_outcomes [where E = refusing_env and s = "initial_state sim0" and i = TheInstance
      and ?h1.0 = sim0 and ?h2.0 = sim0]
    init_outcomes [where E = unconfigured_env and s = "initial_state sim0"
      and m = "Some ''uhf module not configured''" and ?h1.0 = sim0]
    init_outcomes [where E = unlinked_env and s = "initial_state sim0"
      and m = "Some ''no implementation found''" and ?h1.0 = sim0]
  by (simp add: sim_defs not_configured_def link_error_def concat_msg_def)

subsection \<open>The frequency mode\<close>




subsection \<open>Faults\<close>

text \<open>
  Claim C9. No fault is to escape, the inventory callback included. The callback has
  no handler: when the React instance is gone while the reader is still inventorying,
  the emitter throws as the tag-read event is sent, and the exception leaves the
  callback and goes back to the SDK thread that called it; no promise is rejected. And
  the methods catch \<^verbatim>\<open>Exception\<close> only: when the native library fails to link, the
  \<^verbatim>\<open>java.lang.Error\<close> thrown by \<^verbatim>\<open>getInstance\<close> leaves \<^verbatim>\<open>init\<close> and the
  promise is not settled.
\<close>

theorem callback_fault_escapes:
  "callbackRegistered (run throwing_env [Invoke Init, Invoke StartInventory] (initial_state sim0))
   \<and> fst (callback throwing_env (Some sim_tag)
          (run throwing_env [Invoke Init, Invoke StartInventory] (initial_state sim0)))
       = Throws no_catalyst
   \<and> effects_of (callback throwing_env (Some sim_tag))
          (run throwing_env [Invoke Init, Invoke StartInventory] (initial_state sim0))
       = [Threw no_catalyst]
   \<and> fst (invoke unlinked_env Init (initial_state sim0)) = Throws link_error
   \<and> effects_of (invoke unlinked_env Init) (initial_state sim0)
       = [Hw Call_getInstance, Threw link_error]"
  by (simp add: init_def startInventory_def callback_def sendTagReadEvent_def jm_defs
        effects_of_def sim_defs no_catalyst_def link_error_def)

text \<open>
  Claim C9, amended. For every method of the adapter: whenever an \<^verbatim>\<open>Exception\<close>
  was thrown during it, by the SDK or by the emitter, the method returns normally and
  ends by rejecting its promise, once, with that exception, with the error code of its
  own handler (CONFIG_ERROR or INIT_ERROR for \<^verbatim>\<open>init\<close>, FREE_ERROR for \<^verbatim>\<open>free\<close>,
  and so on, as \<open>handler_code\<close> lists them) and with that handler's message. A
  throwable that is no \<^verbatim>\<open>Exception\<close> (a \<^verbatim>\<open>java.lang.Error\<close>) is not caught: it
  leaves the method, and the promise stays unsettled. When nothing is thrown the method
  returns normally and settles its promise once.
\<close>

theorem operations_translate_faults:
  "(Threw e \<in> set (effects_of (invoke E op) s) \<and> isException e \<longrightarrow>
      fst (invoke E op s) = Returns () \<and>
      (\<exists>pre. effects_of (invoke E op) s =
          pre @ [Settle (Rejected (handler_code op e)
                   (concat_msg (handler_prefix op e) (getMessage e)) (Some e))]
        \<and> (\<forall>st. Settle st \<notin> set pre)))
 \<and> (Threw e \<in> set (effects_of (invoke E op) s) \<and> \<not> isException e \<longrightarrow>
      fst (invoke E op s) = Throws e
      \<and> (\<forall>st. Settle st \<notin> set (effects_of (invoke E op) s)))
 \<and> ((\<forall>x. Threw x \<notin> set (effects_of (invoke E op) s)) \<longrightarrow>
      fst (invoke E op s) = Returns () \<and>
      (\<exists>pre st. effects_of (invoke E op) s = pre @ [Settle st]
        \<and> (\<forall>st'. Settle st' \<notin> set pre)))"
  using invoke_caught [of e E op s] invoke_escapes [of e E op s] invoke_unthrown [of E op s]
  by blast

theorem operations_translate_faults_witness:
  "Threw port_busy \<in> set (effects_of (invoke throwing_env (SetPower 20)) sim_ready)
   \<and> isException port_busy
   \<and> fst (invoke throwing_env (SetPower 20) sim_ready) = Returns ()
   \<and> effects_of (invoke throwing_env (SetPower 20)) sim_ready =
       [Hw (Call_setPower 20), Threw port_busy,
        Settle (Rejected ''POWER_ERROR'' ''Error setting power: port busy'' (Some port_busy))]
   \<and> handler_code (SetPower 20) port_busy = ''POWER_ERROR''
   \<and> Threw link_error \<in> set (effects_of (invoke unlinked_env Init) (initial_state sim0))
   \<and> \<not> isException link_error
   \<and> fst (invoke unlinked_env Init (initial_state sim0)) = Throws link_error
   \<and> effects_of (invoke unlinked_env Init) (initial_state sim0) =
       [Hw Call_getInstance, Threw link_error]"
  using operations_translate_faults [of port_busy throwing_env "SetPower 20" sim_ready]
    operations_translate_faults [of link_error unlinked_env Init "initial_state sim0"]
  by (simp add: setPower_def init_def jm_defs effects_of_def sim_defs port_busy_def
        link_error_def concat_msg_def)

subsection \<open>Loading the facade\<close>

text \<open>
  Claim C10. When the native module is absent, evaluating the facade module throws
  an \<^verbatim>\<open>Error\<close> with the message \<^verbatim>\<open>ChainwayRfid native module is not available\<close>;
  the class, with its methods and constants, exists only when a native module does, and
  then delegates to that module and holds that module's constants.
\<close>

theorem module_load_guard:
  "module_load None = JsThrow ''ChainwayRfid native module is not available'' \<and>
   (module_load nativeModule = JsNormal C \<longrightarrow>
      (\<exists>m. nativeModule = Some m \<and> RfidModule C = m
         \<and> BANK_RESERVED C = native_BANK_RESERVED m \<and> BANK_EPC C = native_BANK_EPC m
         \<and> BANK_TID C = native_BANK_TID m \<and> BANK_USER C = native_BANK_USER m
         \<and> FREQ_CHINA_840 C = native_FREQ_CHINA_840 m
         \<and> FREQ_CHINA_920 C = native_FREQ_CHINA_920 m
         \<and> FREQ_EUROPE C = native_FREQ_EUROPE m \<and> FREQ_USA C = native_FREQ_USA m
         \<and> FREQ_KOREA C = native_FREQ_KOREA m \<and> FREQ_JAPAN C = native_FREQ_JAPAN m
         \<and> static_EVENT_TAG_READ C = native_EVENT_TAG_READ m
         \<and> static_EVENT_INVENTORY_START C = native_EVENT_INVENTORY_START m
         \<and> static_EVENT_INVENTORY_STOP C = native_EVENT_INVENTORY_STOP m))"
  by (cases nativeModule) (auto simp add: module_load_def)

theorem module_load_guard_witness:
  "(\<exists>C. module_load (Some sim_native) = JsNormal C \<and> RfidModule C = sim_native
        \<and> FREQ_KOREA C = Finite 22)
   \<and> module_load (None :: settlement ChainwayRfidInterface option)
       = JsThrow ''ChainwayRfid native module is not available''"
proof -
  obtain C where C: "module_load (Some sim_native) = JsNormal C"
    by (simp add: module_load_def)
  with module_load_guard [of "Some sim_native" C]
  have "RfidModule C = sim_native \<and> FREQ_KOREA C = native_FREQ_KOREA sim_native"
    by blast
  moreover have "native_FREQ_KOREA sim_native = Finite 22"
    by (simp add: sim_native_def)
  moreover have "module_load (None :: settlement ChainwayRfidInterface option)
       = JsThrow ''ChainwayRfid native module is not available''"
    by (simp add: module_load_def)
  ultimately show ?thesis using C by simp
qed

end
